theory Spec2Isabelle
  imports Main "HOL-Library.Word"
begin

text \<open>
  The criterion accumulation of CNTK, \<^verbatim>\<open>Source/SGDLib/Criterion.h\<close>: the pair
  \<^verbatim>\<open>EpochCriterion\<close> of an aggregate criterion value and a sample count, and the
  \<^verbatim>\<open>CriterionAccumulator\<close> that keeps one such pair per criterion. First the arithmetic the
  code runs on, then the two structures as the source defines them, then what holds of them.
\<close>

section \<open>Binary floating point with round-to-nearest-even\<close>

text \<open>
  \<^verbatim>\<open>Criterion.h\<close> computes on C++ \<^verbatim>\<open>double\<close> (the fields of \<^verbatim>\<open>EpochCriterion\<close>) and on
  the template parameter \<^verbatim>\<open>ElemType\<close> (\<^verbatim>\<open>float\<close> or \<^verbatim>\<open>double\<close>, the element type of the
  totals matrix). Both are IEEE 754 binary formats in the default rounding mode. A datum is a
  NaN, a signed infinity, a signed zero, or a signed number \<open>m * 2 ^ e\<close> with \<open>m > 0\<close>;
  the sign flag is \<open>True\<close> for the negative sign. NaN payloads are not distinguished:
  the code only asks \<^verbatim>\<open>std::isnan\<close>.
\<close>

datatype fp = FNaN | FInf bool | FZero bool | FNum bool nat int

text \<open>
  A format is its precision \<open>prec\<close> (bits of the significand, hidden bit included) and the
  least and greatest exponent of the unit in the last place: a number of the format is
  \<open>m * 2 ^ e\<close> with \<open>m < 2 ^ prec\<close> and \<open>emin \<le> e \<le> emax\<close>, normalised
  (\<open>2 ^ (prec - 1) \<le> m\<close>) unless \<open>e = emin\<close> (the subnormal numbers).
\<close>

record format =
  prec :: nat
  emin :: int
  emax :: int

definition binary64 :: format where
  "binary64 = \<lparr>prec = 53, emin = - 1074, emax = 971\<rparr>"

definition binary32 :: format where
  "binary32 = \<lparr>prec = 24, emin = - 149, emax = 104\<rparr>"

definition fp_valid :: "format \<Rightarrow> fp \<Rightarrow> bool" where
  "fp_valid f x =
     (case x of
        FNum s m e \<Rightarrow> 0 < m \<and> m < 2 ^ prec f \<and> emin f \<le> e \<and> e \<le> emax f
                      \<and> (2 ^ (prec f - 1) \<le> m \<or> e = emin f)
      | _ \<Rightarrow> True)"

text \<open>The number of binary digits of a natural number.\<close>

fun bitlen :: "nat \<Rightarrow> nat" where
  "bitlen n = (if n = 0 then 0 else Suc (bitlen (n div 2)))"

declare bitlen.simps [simp del]

text \<open>\<open>rne_shift M k\<close>: \<open>M / 2 ^ k\<close> rounded to the nearest integer, ties to the even one.\<close>

definition rne_shift :: "nat \<Rightarrow> nat \<Rightarrow> nat" where
  "rne_shift M k =
     (if k = 0 then M
      else let q = M div 2 ^ k; r = M mod 2 ^ k; h = 2 ^ (k - 1)
           in if h < r \<or> (r = h \<and> odd q) then q + 1 else q)"

text \<open>
  \<open>fround f s M e\<close> rounds the exact value \<open>(-1)^s * M * 2 ^ e\<close> into format \<open>f\<close>:
  the target exponent keeps at most \<open>prec f\<close> digits and is at least \<open>emin f\<close>
  (gradual underflow); a significand that rounds up to \<open>2 ^ prec f\<close> is renormalised;
  a result beyond \<open>emax f\<close> overflows to infinity.
\<close>

definition fround :: "format \<Rightarrow> bool \<Rightarrow> nat \<Rightarrow> int \<Rightarrow> fp" where
  "fround f s M e =
     (if M = 0 then FZero s
      else let e1 = max (e + int (bitlen M) - int (prec f)) (emin f);
               m1 = (if e1 \<le> e then M * 2 ^ nat (e - e1) else rne_shift M (nat (e1 - e)));
               m2 = (if m1 = 2 ^ prec f then 2 ^ (prec f - 1) else m1);
               e2 = (if m1 = 2 ^ prec f then e1 + 1 else e1)
           in if m2 = 0 then FZero s else if emax f < e2 then FInf s else FNum s m2 e2)"

definition signed :: "bool \<Rightarrow> nat \<Rightarrow> int" where
  "signed s m = (if s then - int m else int m)"

text \<open>
  Addition. The special values first; a zero added to a number leaves the number; two
  numbers are added exactly on the smaller exponent and rounded once, an exact sum of zero
  being \<open>+0\<close> in this rounding mode.
\<close>

fun fadd :: "format \<Rightarrow> fp \<Rightarrow> fp \<Rightarrow> fp" where
  "fadd f FNaN y = FNaN"
| "fadd f x FNaN = FNaN"
| "fadd f (FInf s) (FInf t) = (if s = t then FInf s else FNaN)"
| "fadd f (FInf s) y = FInf s"
| "fadd f x (FInf t) = FInf t"
| "fadd f (FZero s) (FZero t) = FZero (s \<and> t)"
| "fadd f (FZero s) y = y"
| "fadd f x (FZero t) = x"
| "fadd f (FNum s m e) (FNum t n d) =
     (let e0 = min e d;
          z = signed s m * 2 ^ nat (e - e0) + signed t n * 2 ^ nat (d - e0)
      in if z = 0 then FZero False else fround f (z < 0) (nat \<bar>z\<bar>) e0)"

fun fneg :: "fp \<Rightarrow> fp" where
  "fneg FNaN = FNaN"
| "fneg (FInf s) = FInf (\<not> s)"
| "fneg (FZero s) = FZero (\<not> s)"
| "fneg (FNum s m e) = FNum (\<not> s) m e"

definition fsub :: "format \<Rightarrow> fp \<Rightarrow> fp \<Rightarrow> fp" where
  "fsub f x y = fadd f x (fneg y)"

text \<open>
  Division. For two numbers the quotient of the significands is computed to more than
  \<open>prec f + 1\<close> digits and a sticky digit records a non-zero remainder, so that the single
  rounding of \<open>fround\<close> sees on which side of a tie the exact quotient lies.
\<close>

fun fdiv :: "format \<Rightarrow> fp \<Rightarrow> fp \<Rightarrow> fp" where
  "fdiv f FNaN y = FNaN"
| "fdiv f x FNaN = FNaN"
| "fdiv f (FInf s) (FInf t) = FNaN"
| "fdiv f (FInf s) (FZero t) = FInf (s \<noteq> t)"
| "fdiv f (FInf s) (FNum t n d) = FInf (s \<noteq> t)"
| "fdiv f (FZero s) (FInf t) = FZero (s \<noteq> t)"
| "fdiv f (FNum s m e) (FInf t) = FZero (s \<noteq> t)"
| "fdiv f (FZero s) (FZero t) = FNaN"
| "fdiv f (FZero s) (FNum t n d) = FZero (s \<noteq> t)"
| "fdiv f (FNum s m e) (FZero t) = FInf (s \<noteq> t)"
| "fdiv f (FNum s m e) (FNum t n d) =
     (let k = prec f + 1 + bitlen n;
          q = (m * 2 ^ k) div n;
          r = (m * 2 ^ k) mod n
      in fround f (s \<noteq> t) (2 * q + (if r = 0 then 0 else 1)) (e - d - int k - 1))"

text \<open>The comparison \<^verbatim>\<open>==\<close>: false on a NaN, true on two zeros of any signs.\<close>

fun feq :: "fp \<Rightarrow> fp \<Rightarrow> bool" where
  "feq FNaN y = False"
| "feq x FNaN = False"
| "feq (FInf s) (FInf t) = (s = t)"
| "feq (FZero s) (FZero t) = True"
| "feq (FNum s m e) (FNum t n d) =
     (s = t \<and> m * 2 ^ nat (e - min e d) = n * 2 ^ nat (d - min e d))"
| "feq x y = False"

text \<open>\<^verbatim>\<open>std::isnan\<close>.\<close>

definition isnan :: "fp \<Rightarrow> bool" where
  "isnan x = (x = FNaN)"

text \<open>Conversion of an unsigned integer, and of a datum of another format.\<close>

definition fp_of_nat :: "format \<Rightarrow> nat \<Rightarrow> fp" where
  "fp_of_nat f n = fround f False n 0"

fun fcvt :: "format \<Rightarrow> fp \<Rightarrow> fp" where
  "fcvt f (FNum s m e) = fround f s m e"
| "fcvt f x = x"

section \<open>EpochCriterion\<close>

type_synonym size_t = "64 word"

text \<open>
  \<^verbatim>\<open>struct EpochCriterion : public std::pair<double, size_t>\<close>: \<open>first\<close> is the aggregate
  criterion value, \<open>second\<close> the aggregate sample count.
\<close>

record EpochCriterion =
  first :: fp
  second :: size_t

text \<open>The constructor, \<^verbatim>\<open>EpochCriterion(aggregateCriterionValue, aggregateSampleCount)\<close>.\<close>

definition EpochCriterion :: "fp \<Rightarrow> size_t \<Rightarrow> EpochCriterion" where
  "EpochCriterion aggregateCriterionValue aggregateSampleCount =
     \<lparr>first = aggregateCriterionValue, second = aggregateSampleCount\<rparr>"

text \<open>\<^verbatim>\<open>double Average() const { return second > 0 ? first / second : 0.0; }\<close>\<close>

definition Average :: "EpochCriterion \<Rightarrow> fp" where
  "Average c =
     (if 0 < second c then fdiv binary64 (first c) (fp_of_nat binary64 (unat (second c)))
      else FZero False)"

text \<open>\<^verbatim>\<open>bool IsNan() const { return std::isnan(first); }\<close>\<close>

definition IsNan :: "EpochCriterion \<Rightarrow> bool" where
  "IsNan c = isnan (first c)"

text \<open>
  \<^verbatim>\<open>operator-\<close>: \<^verbatim>\<open>EpochCriterion(first - other.first, second - other.second)\<close>; the second
  subtraction is on \<^verbatim>\<open>size_t\<close>.
\<close>

definition op_minus :: "EpochCriterion \<Rightarrow> EpochCriterion \<Rightarrow> EpochCriterion" where
  "op_minus c other =
     EpochCriterion (fsub binary64 (first c) (first other)) (second c - second other)"

text \<open>
  \<^verbatim>\<open>operator+=\<close>: \<^verbatim>\<open>first += other.first; second += other.second;\<close>. The updated object is
  returned.
\<close>

definition op_plus_assign :: "EpochCriterion \<Rightarrow> EpochCriterion \<Rightarrow> EpochCriterion" where
  "op_plus_assign c other =
     c\<lparr>first := fadd binary64 (first c) (first other), second := second c + second other\<rparr>"

text \<open>
  \<^verbatim>\<open>Infinity()\<close> calls the constructor with one argument; the sample count takes its
  default, 0.
\<close>

definition Infinity :: EpochCriterion where
  "Infinity = EpochCriterion (FInf False) 0"

text \<open>\<^verbatim>\<open>bool IsInfinity() const { return first == std::numeric_limits<double>::infinity(); }\<close>\<close>

definition IsInfinity :: "EpochCriterion \<Rightarrow> bool" where
  "IsInfinity c = feq (first c) (FInf False)"

section \<open>Collaborators of the accumulator\<close>

text \<open>
  What the source leaves undefined (an index beyond a \<^verbatim>\<open>std::vector\<close>, a null pointer
  dereferenced) and what the matrix library rejects are results of the model.
\<close>

datatype error = IndexOutOfRange | NullPointer | InvalidArgument

text \<open>
  Modelled from the spec: the class \<^verbatim>\<open>Matrix<ElemType>\<close> of \<^verbatim>\<open>Matrix.h\<close>, which is not part
  of the sources at hand. A matrix has a number of rows and of columns and its elements,
  stored column by column. The device on which it lives is not modelled.
\<close>

record Matrix =
  numRows :: nat
  numCols :: nat
  elems :: "fp list"

definition locate :: "Matrix \<Rightarrow> nat \<Rightarrow> nat \<Rightarrow> nat option" where
  "locate a i j =
     (if i < numRows a \<and> j < numCols a \<and> j * numRows a + i < length (elems a)
      then Some (j * numRows a + i) else None)"

text \<open>Modelled from the spec: the constructor \<^verbatim>\<open>Matrix(numRows, numCols, deviceId)\<close>.\<close>

definition Matrix :: "nat \<Rightarrow> nat \<Rightarrow> Matrix" where
  "Matrix r c = \<lparr>numRows = r, numCols = c, elems = replicate (r * c) (FZero False)\<rparr>"

text \<open>Modelled from the spec: \<^verbatim>\<open>SetValue(v)\<close> stores \<open>v\<close> in every element.\<close>

definition SetValue :: "fp \<Rightarrow> Matrix \<Rightarrow> Matrix" where
  "SetValue v a = a\<lparr>elems := map (\<lambda>_. v) (elems a)\<rparr>"

text \<open>Modelled from the spec: the element read \<^verbatim>\<open>a(i, j)\<close>.\<close>

definition elemAt :: "Matrix \<Rightarrow> nat \<Rightarrow> nat \<Rightarrow> error + fp" where
  "elemAt a i j = (case locate a i j of None \<Rightarrow> Inl InvalidArgument | Some k \<Rightarrow> Inr (elems a ! k))"

text \<open>
  Modelled from the spec: \<^verbatim>\<open>AssignElementToElement(a, ai, aj, c, ci, cj)\<close> copies the element
  \<open>(ai, aj)\<close> of \<open>a\<close> to the element \<open>(ci, cj)\<close> of \<open>c\<close>; the updated \<open>c\<close> is returned.
\<close>

definition AssignElementToElement ::
  "Matrix \<Rightarrow> nat \<Rightarrow> nat \<Rightarrow> Matrix \<Rightarrow> nat \<Rightarrow> nat \<Rightarrow> error + Matrix" where
  "AssignElementToElement a ai aj c ci cj =
     (case (locate a ai aj, locate c ci cj) of
        (Some ka, Some kc) \<Rightarrow> Inr (c\<lparr>elems := (elems c)[kc := elems a ! ka]\<rparr>)
      | _ \<Rightarrow> Inl InvalidArgument)"

text \<open>
  Modelled from the spec: \<^verbatim>\<open>AddElementToElement(a, ai, aj, c, ci, cj)\<close> adds the element
  \<open>(ai, aj)\<close> of \<open>a\<close> into the element \<open>(ci, cj)\<close> of \<open>c\<close>, in the arithmetic of the
  element type \<open>f\<close>.
\<close>

definition AddElementToElement ::
  "format \<Rightarrow> Matrix \<Rightarrow> nat \<Rightarrow> nat \<Rightarrow> Matrix \<Rightarrow> nat \<Rightarrow> nat \<Rightarrow> error + Matrix" where
  "AddElementToElement f a ai aj c ci cj =
     (case (locate a ai aj, locate c ci cj) of
        (Some ka, Some kc) \<Rightarrow> Inr (c\<lparr>elems := (elems c)[kc := fadd f (elems c ! kc) (elems a ! ka)]\<rparr>)
      | _ \<Rightarrow> Inl InvalidArgument)"

text \<open>
  Modelled from the spec: the minibatch layout of \<^verbatim>\<open>ComputationNetwork\<close>, of which the
  accumulator uses only \<^verbatim>\<open>GetActualNumSamples()\<close>, the number of samples that are not
  padding.
\<close>

record MBLayout =
  m_actualNumSamples :: size_t

definition GetActualNumSamples :: "MBLayout \<Rightarrow> size_t" where
  "GetActualNumSamples L = m_actualNumSamples L"

text \<open>
  Modelled from the spec: a computation node, as far as the accumulator looks at it. Its
  dynamic type is \<^verbatim>\<open>ComputationNode<nodeElemType>\<close>, \<open>m_value\<close> is what \<^verbatim>\<open>Value()\<close> returns
  and \<open>m_pMBLayout\<close> is the layout pointer, \<open>None\<close> when the node has no layout. A
  \<^verbatim>\<open>ComputationNodeBasePtr\<close> is a shared pointer, \<open>None\<close> when null.
\<close>

record ComputationNode =
  nodeElemType :: format
  m_value :: Matrix
  m_pMBLayout :: "MBLayout option"

type_synonym ComputationNodeBasePtr = "ComputationNode option"

definition HasMBLayout :: "ComputationNode \<Rightarrow> bool" where
  "HasMBLayout n = (m_pMBLayout n \<noteq> None)"

definition GetMBLayout :: "ComputationNode \<Rightarrow> MBLayout option" where
  "GetMBLayout n = m_pMBLayout n"

text \<open>\<^verbatim>\<open>dynamic_pointer_cast<ComputationNode<ElemType>>(node)\<close>: null unless the types agree.\<close>

definition dynamic_pointer_cast :: "format \<Rightarrow> ComputationNodeBasePtr \<Rightarrow> ComputationNodeBasePtr" where
  "dynamic_pointer_cast f node =
     (case node of None \<Rightarrow> None | Some n \<Rightarrow> if nodeElemType n = f then Some n else None)"

section \<open>CriterionAccumulator\<close>

text \<open>
  \<open>ElemType\<close> is the template parameter, \<open>m_aggregateCriterionValues\<close> the \<open>1 x N\<close>
  matrix of totals and \<open>m_aggregateSampleCounts\<close> the vector of \<open>N\<close> counts.
\<close>

record CriterionAccumulator =
  ElemType :: format
  m_aggregateCriterionValues :: Matrix
  m_aggregateSampleCounts :: "size_t list"

text \<open>
  The constructor: a \<open>1 x numCriteria\<close> matrix set to 0 and \<open>numCriteria\<close> counts of 0.
\<close>

definition CriterionAccumulator :: "format \<Rightarrow> nat \<Rightarrow> CriterionAccumulator" where
  "CriterionAccumulator f numCriteria =
     \<lparr>ElemType = f,
      m_aggregateCriterionValues = SetValue (FZero False) (Matrix 1 numCriteria),
      m_aggregateSampleCounts = replicate numCriteria 0\<rparr>"

text \<open>\<^verbatim>\<open>GetNumSamples(node, legacyNumSamples)\<close>.\<close>

definition GetNumSamples :: "ComputationNodeBasePtr \<Rightarrow> size_t \<Rightarrow> error + size_t" where
  "GetNumSamples node legacyNumSamples =
     (case node of
        None \<Rightarrow> Inl NullPointer
      | Some n \<Rightarrow>
          if HasMBLayout n
          then (case GetMBLayout n of
                  None \<Rightarrow> Inl NullPointer
                | Some L \<Rightarrow> Inr (GetActualNumSamples L))
          else Inr legacyNumSamples)"

text \<open>\<^verbatim>\<open>float beta = !reset;\<close>: a \<^verbatim>\<open>bool\<close> converted to \<^verbatim>\<open>float\<close>, 1 or 0.\<close>

definition float_of_bool :: "bool \<Rightarrow> fp" where
  "float_of_bool b = (if b then fp_of_nat binary32 1 else FZero False)"

text \<open>
  \<^verbatim>\<open>Accumulate<reset>(nodes, i, legacyNumSamples)\<close>, the shared part of \<^verbatim>\<open>Add\<close> and
  \<^verbatim>\<open>Assign\<close>. The accumulator is returned updated.
\<close>

definition Accumulate ::
  "bool \<Rightarrow> CriterionAccumulator \<Rightarrow> ComputationNodeBasePtr list \<Rightarrow> nat \<Rightarrow> size_t
     \<Rightarrow> error + CriterionAccumulator" where
  "Accumulate reset acc nodes i legacyNumSamples =
     (if length nodes \<le> i then Inl IndexOutOfRange
      else
        let node = nodes ! i;
            beta = float_of_bool (\<not> reset)
        in if feq beta (FZero False)
           then
             (case dynamic_pointer_cast (ElemType acc) node of
                None \<Rightarrow> Inl NullPointer
              | Some n \<Rightarrow>
                 (case AssignElementToElement (m_value n) 0 0 (m_aggregateCriterionValues acc) 0 i of
                    Inl e \<Rightarrow> Inl e
                  | Inr values \<Rightarrow>
                     (case GetNumSamples (nodes ! i) legacyNumSamples of
                        Inl e \<Rightarrow> Inl e
                      | Inr k \<Rightarrow>
                          if length (m_aggregateSampleCounts acc) \<le> i then Inl IndexOutOfRange
                          else Inr (acc\<lparr>m_aggregateCriterionValues := values,
                                        m_aggregateSampleCounts := (m_aggregateSampleCounts acc)[i := k]\<rparr>))))
           else
             (case dynamic_pointer_cast (ElemType acc) node of
                None \<Rightarrow> Inl NullPointer
              | Some n \<Rightarrow>
                 (case AddElementToElement (ElemType acc) (m_value n) 0 0 (m_aggregateCriterionValues acc) 0 i of
                    Inl e \<Rightarrow> Inl e
                  | Inr values \<Rightarrow>
                     (case GetNumSamples (nodes ! i) legacyNumSamples of
                        Inl e \<Rightarrow> Inl e
                      | Inr k \<Rightarrow>
                          if length (m_aggregateSampleCounts acc) \<le> i then Inl IndexOutOfRange
                          else Inr (acc\<lparr>m_aggregateCriterionValues := values,
                                        m_aggregateSampleCounts :=
                                          (m_aggregateSampleCounts acc)[i := m_aggregateSampleCounts acc ! i + k]\<rparr>)))))"

definition Add ::
  "CriterionAccumulator \<Rightarrow> ComputationNodeBasePtr list \<Rightarrow> nat \<Rightarrow> size_t \<Rightarrow> error + CriterionAccumulator" where
  "Add acc nodes i legacyNumSamples = Accumulate False acc nodes i legacyNumSamples"

definition Assign ::
  "CriterionAccumulator \<Rightarrow> ComputationNodeBasePtr list \<Rightarrow> nat \<Rightarrow> size_t \<Rightarrow> error + CriterionAccumulator" where
  "Assign acc nodes i legacyNumSamples = Accumulate True acc nodes i legacyNumSamples"

text \<open>
  \<^verbatim>\<open>GetCriterion(i)\<close>: the element \<open>(0, i)\<close> of the totals, converted from \<open>ElemType\<close> to
  \<^verbatim>\<open>double\<close> by the constructor of \<^verbatim>\<open>EpochCriterion\<close>, and the count \<open>i\<close>.
\<close>

definition GetCriterion :: "CriterionAccumulator \<Rightarrow> nat \<Rightarrow> error + EpochCriterion" where
  "GetCriterion acc i =
     (case elemAt (m_aggregateCriterionValues acc) 0 i of
        Inl e \<Rightarrow> Inl e
      | Inr v \<Rightarrow>
          if length (m_aggregateSampleCounts acc) \<le> i then Inl IndexOutOfRange
          else Inr (EpochCriterion (fcvt binary64 v) (m_aggregateSampleCounts acc ! i)))"

text \<open>
  Calls in sequence, as in \<^verbatim>\<open>acc.Add(nodes, 0, n).Add(nodes, 1, n)\<close>: the next call runs on
  the accumulator the previous one returned, and a failure ends the sequence.
\<close>

definition and_then :: "error + 'a \<Rightarrow> ('a \<Rightarrow> error + 'b) \<Rightarrow> error + 'b" where
  "and_then r k = (case r of Inl e \<Rightarrow> Inl e | Inr a \<Rightarrow> k a)"

datatype update =
  AddTo "ComputationNodeBasePtr list" nat size_t
| AssignTo "ComputationNodeBasePtr list" nat size_t

fun apply_update :: "CriterionAccumulator \<Rightarrow> update \<Rightarrow> error + CriterionAccumulator" where
  "apply_update acc (AddTo nodes i n) = Add acc nodes i n"
| "apply_update acc (AssignTo nodes i n) = Assign acc nodes i n"

fun apply_updates :: "CriterionAccumulator \<Rightarrow> update list \<Rightarrow> error + CriterionAccumulator" where
  "apply_updates acc [] = Inr acc"
| "apply_updates acc (u # us) = and_then (apply_update acc u) (\<lambda>acc'. apply_updates acc' us)"

text \<open>The invariant of the data model: one row, \<open>N\<close> columns, \<open>N\<close> counts.\<close>

definition acc_inv :: "nat \<Rightarrow> CriterionAccumulator \<Rightarrow> bool" where
  "acc_inv N acc =
     (numRows (m_aggregateCriterionValues acc) = 1 \<and>
      numCols (m_aggregateCriterionValues acc) = N \<and>
      length (elems (m_aggregateCriterionValues acc)) = N \<and>
      length (m_aggregateSampleCounts acc) = N)"

text \<open>The slot an update writes to.\<close>

fun update_slot :: "update \<Rightarrow> nat" where
  "update_slot (AddTo nodes i n) = i"
| "update_slot (AssignTo nodes i n) = i"

text \<open>
  A node as the training loop hands it to the accumulator: its value is a \<open>1 x 1\<close>
  matrix holding the criterion \<open>v\<close>.
\<close>

definition criterionNode :: "format \<Rightarrow> fp \<Rightarrow> MBLayout option \<Rightarrow> ComputationNodeBasePtr" where
  "criterionNode f v L =
     Some \<lparr>nodeElemType = f, m_value = \<lparr>numRows = 1, numCols = 1, elems = [v]\<rparr>, m_pMBLayout = L\<rparr>"

section \<open>Evaluating the arithmetic\<close>

lemma bitlen_0: "bitlen 0 = 0"
  by (simp add: bitlen.simps)

lemma bitlen_double: "0 < n \<Longrightarrow> bitlen (2 * n) = 1 + bitlen n"
  by (subst bitlen.simps) simp

lemma bitlen_double1: "bitlen (2 * n + 1) = 1 + bitlen n"
  by (subst bitlen.simps) simp

lemma bitlen_One: "bitlen (numeral Num.One) = 1"
  using bitlen_double1 [of 0] by (simp add: bitlen_0)

lemma bitlen_Bit0: "bitlen (numeral (Num.Bit0 k)) = 1 + bitlen (numeral k)"
  using bitlen_double [of "numeral k"] by (simp add: numeral_Bit0 mult_2)

lemma bitlen_Bit1: "bitlen (numeral (Num.Bit1 k)) = 1 + bitlen (numeral k)"
  using bitlen_double1 [of "numeral k"] by (simp add: numeral_Bit1 mult_2)

lemma bitlen_1: "bitlen 1 = 1" "bitlen (Suc 0) = 1"
  using bitlen_One by simp_all

lemmas bitlen_eval = bitlen_0 bitlen_1 bitlen_One bitlen_Bit0 bitlen_Bit1

lemmas fp_eval = fp_of_nat_def fround_def rne_shift_def signed_def binary64_def binary32_def
  Let_def bitlen_eval

text \<open>\<^verbatim>\<open>1.0f\<close> is \<open>2 ^ 23 * 2 ^ - 23\<close>.\<close>

lemma one_binary32: "fp_of_nat binary32 1 = FNum False 8388608 (- 23)"
  by (simp add: fp_eval)

text \<open>\<^verbatim>\<open>beta == 0\<close> holds in \<^verbatim>\<open>Accumulate<true>\<close> and fails in \<^verbatim>\<open>Accumulate<false>\<close>.\<close>

lemma beta_reset: "feq (float_of_bool False) (FZero False)"
  by (simp add: float_of_bool_def)

lemma beta_add: "\<not> feq (float_of_bool True) (FZero False)"
  unfolding float_of_bool_def if_True one_binary32 by simp

lemmas acc_eval = Add_def Assign_def Accumulate_def GetCriterion_def GetNumSamples_def
  HasMBLayout_def GetMBLayout_def GetActualNumSamples_def dynamic_pointer_cast_def
  AssignElementToElement_def AddElementToElement_def elemAt_def locate_def
  CriterionAccumulator_def Matrix_def SetValue_def criterionNode_def and_then_def
  EpochCriterion_def beta_reset beta_add

lemma feq_FInf_iff: "feq x (FInf False) \<longleftrightarrow> x = FInf False"
  by (cases x) simp_all

lemma fadd_commute: "fadd f x y = fadd f y x"
  by (cases x; cases y) (auto simp: Let_def min.commute add.commute)

lemma int_sub_wrap:
  fixes x y :: int
  assumes "0 \<le> x" "x < y" "y < 2 ^ 64"
  shows "(x - y) mod 2 ^ 64 = 2 ^ 64 - (y - x)"
proof -
  have "(x - y) mod 2 ^ 64 = (x - y + 2 ^ 64) mod 2 ^ 64"
    by (simp only: mod_add_self2)
  also have "\<dots> = x - y + 2 ^ 64"
    using assms by (intro mod_pos_pos_trivial) linarith+
  finally show ?thesis by linarith
qed

section \<open>Rounding stays in the format\<close>

text \<open>
  The digits of a number: \<open>bitlen n\<close> is the least \<open>k\<close> with \<open>n < 2 ^ k\<close>.
\<close>

lemma bitlen_le_iff: "bitlen n \<le> k \<longleftrightarrow> n < 2 ^ k"
proof (induction n arbitrary: k rule: bitlen.induct)
  case (1 n)
  show ?case
  proof (cases "n = 0")
    case True
    then show ?thesis by (simp add: bitlen_0)
  next
    case False
    have b: "bitlen n = Suc (bitlen (n div 2))"
      using False by (subst bitlen.simps) simp
    show ?thesis
    proof (cases k)
      case 0
      then show ?thesis using False b by simp
    next
      case (Suc k')
      have "bitlen n \<le> k \<longleftrightarrow> bitlen (n div 2) \<le> k'" using b Suc by simp
      also have "\<dots> \<longleftrightarrow> n div 2 < 2 ^ k'" using "1.IH" [OF False] .
      also have "\<dots> \<longleftrightarrow> n < 2 ^ k" using Suc by auto
      finally show ?thesis .
    qed
  qed
qed

lemma bitlen_upper: "n < 2 ^ bitlen n"
  using bitlen_le_iff [of n "bitlen n"] by simp

lemma bitlen_lower: "0 < n \<Longrightarrow> 2 ^ (bitlen n - 1) \<le> n"
proof -
  assume "0 < n"
  then have "0 < bitlen n" by (subst bitlen.simps) simp
  then have "\<not> bitlen n \<le> bitlen n - 1" by simp
  then show ?thesis by (simp add: bitlen_le_iff)
qed

lemma bitlen_eq: "2 ^ (p - 1) \<le> n \<Longrightarrow> n < 2 ^ p \<Longrightarrow> 0 < p \<Longrightarrow> bitlen n = p"
proof -
  assume a: "2 ^ (p - 1) \<le> n" "n < 2 ^ p" "0 < p"
  have "bitlen n \<le> p" using a(2) by (simp add: bitlen_le_iff)
  moreover have "\<not> bitlen n \<le> p - 1" using a(1) by (simp add: bitlen_le_iff)
  ultimately show ?thesis using a(3) by simp
qed

text \<open>
  A datum of the format rounds to itself. So the sum of a number and a zero, which \<open>fadd\<close>
  returns as the number, is what rounding the exact sum gives; and the conversion of a
  \<^verbatim>\<open>double\<close> to \<^verbatim>\<open>double\<close> changes nothing.
\<close>

lemma fround_id:
  assumes "fp_valid f (FNum s m e)"
  shows "fround f s m e = FNum s m e"
proof -
  from assms have m: "0 < m" "m < 2 ^ prec f" and e: "emin f \<le> e" "e \<le> emax f"
    and n: "2 ^ (prec f - 1) \<le> m \<or> e = emin f"
    by (simp_all add: fp_valid_def)
  have p: "0 < prec f" using m by (cases "prec f") auto
  have le: "bitlen m \<le> prec f" using m(2) by (simp add: bitlen_le_iff)
  have e1: "max (e + int (bitlen m) - int (prec f)) (emin f) = e"
  proof (cases "2 ^ (prec f - 1) \<le> m")
    case True
    then have "bitlen m = prec f" using m(2) p by (rule bitlen_eq)
    then show ?thesis using e by simp
  next
    case False
    with n have "e = emin f" by simp
    then show ?thesis using le by simp
  qed
  show ?thesis
    unfolding fround_def Let_def e1 using m e by simp
qed

lemma fcvt_id: "fp_valid f x \<Longrightarrow> fcvt f x = x"
  by (cases x) (simp_all add: fround_id)

text \<open>Whatever is rounded, the result is a datum of the format.\<close>

lemma rne_shift_bounds: "M div 2 ^ k \<le> rne_shift M k \<and> rne_shift M k \<le> M div 2 ^ k + 1"
  by (simp add: rne_shift_def Let_def)

lemma fround_valid:
  assumes p: "0 < prec f" and ee: "emin f \<le> emax f"
  shows "fp_valid f (fround f s M e)"
proof (cases "M = 0")
  case True
  then show ?thesis by (simp add: fround_def fp_valid_def)
next
  case False
  define b where "b = bitlen M"
  define e1 where "e1 = max (e + int b - int (prec f)) (emin f)"
  define m1 where "m1 = (if e1 \<le> e then M * 2 ^ nat (e - e1) else rne_shift M (nat (e1 - e)))"
  have Mb: "M < 2 ^ b" unfolding b_def by (rule bitlen_upper)
  have bM: "2 ^ (b - 1) \<le> M" unfolding b_def using False bitlen_lower [of M] by simp
  have b0: "0 < b" using False unfolding b_def by (subst bitlen.simps) simp
  have e1_ge: "e + int b - int (prec f) \<le> e1" "emin f \<le> e1" unfolding e1_def by simp_all
  have e1_cases: "e1 = emin f \<or> e1 = e + int b - int (prec f)" unfolding e1_def by linarith
  have A: "m1 \<le> 2 ^ prec f \<and> (e1 = emin f \<or> 2 ^ (prec f - 1) \<le> m1)"
  proof (cases "e1 \<le> e")
    case True
    define k where "k = nat (e - e1)"
    have m1: "m1 = M * 2 ^ k" using True by (simp add: m1_def k_def)
    have bk: "b + k \<le> prec f" using True e1_ge(1) by (simp add: k_def)
    have "M * 2 ^ k < 2 ^ b * 2 ^ k" using Mb by simp
    also have "\<dots> = 2 ^ (b + k)" by (simp add: power_add)
    also have "\<dots> \<le> 2 ^ prec f" using bk by (simp add: power_increasing)
    finally have up: "m1 \<le> 2 ^ prec f" using m1 by simp
    have "2 ^ (prec f - 1) \<le> m1" if "e1 \<noteq> emin f"
    proof -
      from that e1_cases have "e1 = e + int b - int (prec f)" by simp
      then have k: "b + k = prec f" using True by (simp add: k_def)
      then have "prec f - 1 = (b - 1) + k" using b0 by simp
      then have "(2::nat) ^ (prec f - 1) = 2 ^ (b - 1) * 2 ^ k" by (simp add: power_add)
      also have "\<dots> \<le> M * 2 ^ k" using bM by simp
      finally show ?thesis using m1 by simp
    qed
    with up show ?thesis by blast
  next
    case False
    define k where "k = nat (e1 - e)"
    have k0: "0 < k" using False by (simp add: k_def)
    have m1: "m1 = rne_shift M k" using False by (simp add: m1_def k_def)
    have bk: "b \<le> prec f + k" using False e1_ge(1) by (simp add: k_def)
    have "M < 2 ^ (prec f + k)"
      using Mb bk by (meson less_le_trans one_le_numeral power_increasing)
    then have "M < 2 ^ prec f * 2 ^ k" by (simp add: power_add)
    then have "M div 2 ^ k < 2 ^ prec f" by (simp add: less_mult_imp_div_less)
    then have up: "m1 \<le> 2 ^ prec f" using rne_shift_bounds [of M k] m1 by simp
    have "2 ^ (prec f - 1) \<le> m1" if "e1 \<noteq> emin f"
    proof -
      from that e1_cases have "e1 = e + int b - int (prec f)" by simp
      then have k: "b = prec f + k" using False by (simp add: k_def)
      then have "b - 1 = (prec f - 1) + k" using p by simp
      then have "(2::nat) ^ (prec f - 1) * 2 ^ k = 2 ^ (b - 1)" by (simp add: power_add)
      then have "2 ^ (prec f - 1) * 2 ^ k \<le> M" using bM by simp
      then have "2 ^ (prec f - 1) \<le> M div 2 ^ k" by (simp add: less_eq_div_iff_mult_less_eq)
      then show ?thesis using rne_shift_bounds [of M k] m1 by simp
    qed
    with up show ?thesis by blast
  qed
  have pp: "(2::nat) ^ (prec f - 1) < 2 ^ prec f" using p by simp
  have fr: "fround f s M e =
       (let m2 = (if m1 = 2 ^ prec f then 2 ^ (prec f - 1) else m1);
            e2 = (if m1 = 2 ^ prec f then e1 + 1 else e1)
        in if m2 = 0 then FZero s else if emax f < e2 then FInf s else FNum s m2 e2)"
    using \<open>M \<noteq> 0\<close> by (simp add: fround_def Let_def m1_def e1_def b_def)
  show ?thesis
    unfolding fr Let_def using A e1_ge(2) pp
    by (auto simp: fp_valid_def)
qed

lemma fadd_valid:
  assumes "0 < prec f" "emin f \<le> emax f" "fp_valid f x" "fp_valid f y"
  shows "fp_valid f (fadd f x y)"
proof (cases x)
  case (FNum s m e)
  show ?thesis
  proof (cases y)
    case y: (FNum t n d)
    show ?thesis
      unfolding FNum y fadd.simps Let_def
      using fround_valid [OF assms(1,2)] by (simp add: fp_valid_def)
  qed (use assms FNum in \<open>simp_all add: fp_valid_def\<close>)
next
  case FNaN
  then show ?thesis by (simp add: fp_valid_def)
next
  case (FInf s)
  then show ?thesis by (cases y) (simp_all add: fp_valid_def)
next
  case (FZero s)
  then show ?thesis using assms(4) by (cases y) (simp_all add: fp_valid_def)
qed

text \<open>
  The conversion of a \<^verbatim>\<open>float\<close> to \<^verbatim>\<open>double\<close> is exact: the significand is shifted to 53
  digits, nothing is rounded away, and the result compares equal to the argument.
\<close>

lemma fround_widen:
  assumes "0 < M" "bitlen M \<le> prec g" "emin g \<le> e + int (bitlen M) - int (prec g)"
    and "e + int (bitlen M) - int (prec g) \<le> emax g"
  shows "fround g s M e = FNum s (M * 2 ^ (prec g - bitlen M)) (e + int (bitlen M) - int (prec g))"
proof -
  have e1: "max (e + int (bitlen M) - int (prec g)) (emin g) = e + int (bitlen M) - int (prec g)"
    using assms(3) by simp
  have k: "nat (e - (e + int (bitlen M) - int (prec g))) = prec g - bitlen M"
    using assms(2) by simp
  have "M * 2 ^ (prec g - bitlen M) < 2 ^ bitlen M * 2 ^ (prec g - bitlen M)"
    using bitlen_upper [of M] by simp
  also have "\<dots> = 2 ^ prec g" using assms(2) by (simp add: power_add [symmetric])
  finally have lt: "M * 2 ^ (prec g - bitlen M) \<noteq> 2 ^ prec g" by simp
  show ?thesis
    unfolding fround_def Let_def e1 k using assms(1,2,4) lt by simp
qed

lemma fcvt_binary32_binary64:
  assumes "fp_valid binary32 x" "x \<noteq> FNaN"
  shows "feq (fcvt binary64 x) x"
proof (cases x)
  case (FNum s m e)
  from assms(1) FNum have m: "0 < m" "m < 2 ^ 24" and e: "- 149 \<le> e" "e \<le> 104"
    by (simp_all add: fp_valid_def binary32_def)
  have b: "bitlen m \<le> 24" using m(2) by (simp add: bitlen_le_iff)
  have b0: "0 < bitlen m" using m(1) by (subst bitlen.simps) simp
  have "fround binary64 s m e =
          FNum s (m * 2 ^ (prec binary64 - bitlen m)) (e + int (bitlen m) - int (prec binary64))"
    using m(1) b b0 e by (intro fround_widen) (simp_all add: binary64_def)
  moreover have "nat (53 - int (bitlen m)) = 53 - bitlen m" by simp
  ultimately show ?thesis using FNum b by (simp add: binary64_def)
qed (use assms in simp_all)

lemma to_double_exact:
  assumes "f = binary64 \<or> f = binary32" "fp_valid f v"
  shows "fcvt binary64 v = v \<or> feq (fcvt binary64 v) v"
proof (cases "f = binary64")
  case True
  then show ?thesis using assms(2) by (simp add: fcvt_id)
next
  case False
  with assms have "fp_valid binary32 v" by simp
  then show ?thesis using fcvt_binary32_binary64 [of v] by (cases "v = FNaN") auto
qed

section \<open>EpochCriterion: the average and the sentinels\<close>

text \<open>
  Claim C1. \<^verbatim>\<open>Average()\<close> of any \<^verbatim>\<open>EpochCriterion\<close> is \<open>+0.0\<close> when the sample count
  is 0, whatever the aggregate value, and the aggregate value divided by the sample count
  (converted to \<^verbatim>\<open>double\<close>) when the sample count is greater than 0. The function is total:
  its result is always a \<^verbatim>\<open>double\<close>, there is no error result.
\<close>

theorem Average_by_count:
  "Average c =
     (if second c = 0 then FZero False
      else fdiv binary64 (first c) (fp_of_nat binary64 (unat (second c)))) \<and>
   Average (EpochCriterion v 0) = FZero False \<and>
   Average (EpochCriterion v n) =
     (if 0 < n then fdiv binary64 v (fp_of_nat binary64 (unat n)) else FZero False)"
  by (simp add: Average_def EpochCriterion_def word_gt_0)

text \<open>
  Claim C4, as stated, fails: \<^verbatim>\<open>Infinity()\<close> has the sample count 0, so \<^verbatim>\<open>Average()\<close>
  takes the branch of the guard that returns \<open>0.0\<close>; the result is not \<open>+infinity\<close>,
  neither as a datum nor under \<^verbatim>\<open>==\<close>.
\<close>

theorem Infinity_Average_counterexample:
  "Average Infinity \<noteq> FInf False \<and> \<not> feq (Average Infinity) (FInf False)"
  by (simp add: Average_def Infinity_def EpochCriterion_def)

text \<open>
  Claim C4, amended. \<^verbatim>\<open>Infinity()\<close> is the pair \<open>(+infinity, 0)\<close>, \<^verbatim>\<open>IsInfinity()\<close> holds of
  it, and its \<^verbatim>\<open>Average()\<close> is \<open>+0.0\<close>: the guard is on the count, which is 0, and the
  division, which would give \<open>+infinity\<close>, is not performed.
\<close>

theorem Infinity_sentinel:
  "Infinity = EpochCriterion (FInf False) 0 \<and> IsInfinity Infinity \<and>
   Average Infinity = FZero False \<and>
   fdiv binary64 (first Infinity) (fp_of_nat binary64 (unat (second Infinity))) = FInf False"
  by (simp add: Average_def Infinity_def IsInfinity_def EpochCriterion_def fp_eval)

text \<open>
  Claim C5. For every count \<open>c\<close>, \<^verbatim>\<open>EpochCriterion(NaN, c)\<close> satisfies \<^verbatim>\<open>IsNan()\<close> and
  not \<^verbatim>\<open>IsInfinity()\<close>; \<^verbatim>\<open>IsInfinity()\<close> holds exactly when the aggregate value is
  \<open>+infinity\<close> (so it fails for \<open>-infinity\<close> as well), and \<^verbatim>\<open>IsNan()\<close> exactly when the
  aggregate value is a NaN.
\<close>

theorem IsNan_IsInfinity_tests:
  "IsNan (EpochCriterion FNaN c) \<and> \<not> IsInfinity (EpochCriterion FNaN c) \<and>
   \<not> IsInfinity (EpochCriterion (FInf True) c) \<and>
   (IsInfinity e \<longleftrightarrow> first e = FInf False) \<and> (IsNan e \<longleftrightarrow> first e = FNaN)"
  by (simp add: IsNan_def IsInfinity_def isnan_def EpochCriterion_def feq_FInf_iff)

section \<open>EpochCriterion: differences\<close>

text \<open>
  Claim C10. When the sample count of \<open>a\<close> is less than that of \<open>b\<close>, the sample count
  of \<open>a - b\<close> is the difference modulo \<open>2 ^ 64\<close>, that is \<open>2 ^ 64\<close> minus the missing
  amount: an unsigned value, produced without any error.
\<close>

theorem op_minus_count_wraps:
  "second a < second b \<Longrightarrow>
     uint (second (op_minus a b)) = (uint (second a) - uint (second b)) mod 2 ^ 64 \<and>
     uint (second (op_minus a b)) = 2 ^ 64 - (uint (second b) - uint (second a))"
proof -
  assume lt: "second a < second b"
  have m: "uint (second (op_minus a b)) = (uint (second a) - uint (second b)) mod 2 ^ 64"
    by (simp add: op_minus_def EpochCriterion_def uint_word_ariths)
  have 1: "uint (second a) < uint (second b)" using lt by (simp add: word_less_def)
  have 2: "0 \<le> uint (second a)" by simp
  have 3: "uint (second b) < 2 ^ 64"
    using uint_bounded [of "second b"] by simp
  show ?thesis
    unfolding m using int_sub_wrap [OF 2 1 3] by (rule conjI [OF refl])
qed

text \<open>The counts 3 and 5: \<open>3 - 5\<close> is \<open>2 ^ 64 - 2\<close>.\<close>

theorem op_minus_count_wraps_witness:
  "second (EpochCriterion (FZero False) 3) < second (EpochCriterion (FZero False) 5) \<and>
   uint (second (op_minus (EpochCriterion (FZero False) 3) (EpochCriterion (FZero False) 5)))
     = 18446744073709551614"
  using op_minus_count_wraps [of "EpochCriterion (FZero False) 3" "EpochCriterion (FZero False) 5"]
  by (simp add: EpochCriterion_def)

section \<open>CriterionAccumulator: the two update modes\<close>

lemma locate_totals:
  "acc_inv N acc \<Longrightarrow> locate (m_aggregateCriterionValues acc) 0 i = (if i < N then Some i else None)"
  by (simp add: acc_inv_def locate_def)

lemma elemAt_totals:
  "acc_inv N acc \<Longrightarrow> i < N \<Longrightarrow>
     elemAt (m_aggregateCriterionValues acc) 0 i = Inr (elems (m_aggregateCriterionValues acc) ! i)"
  by (simp add: elemAt_def locate_totals)

lemma acc_inv_new: "acc_inv N (CriterionAccumulator f N)"
  by (simp add: acc_inv_def CriterionAccumulator_def SetValue_def Matrix_def)

lemma Assign_success:
  assumes "acc_inv N acc" "i < N" "i < length nodes" "nodes ! i = Some n"
    and "nodeElemType n = ElemType acc" "elemAt (m_value n) 0 0 = Inr v"
    and "GetNumSamples (nodes ! i) l = Inr k"
  shows "Assign acc nodes i l =
     Inr (acc\<lparr>m_aggregateCriterionValues :=
                (m_aggregateCriterionValues acc)\<lparr>elems :=
                   (elems (m_aggregateCriterionValues acc))[i := v]\<rparr>,
              m_aggregateSampleCounts := (m_aggregateSampleCounts acc)[i := k]\<rparr>)"
proof -
  from assms(6) obtain ka where ka: "locate (m_value n) 0 0 = Some ka" "elems (m_value n) ! ka = v"
    by (auto simp: elemAt_def split: option.splits)
  have kc: "locate (m_aggregateCriterionValues acc) 0 i = Some i"
    using assms(1,2) by (simp add: locate_totals)
  have len: "\<not> length (m_aggregateSampleCounts acc) \<le> i"
    using assms(1,2) by (simp add: acc_inv_def)
  have cast: "dynamic_pointer_cast (ElemType acc) (nodes ! i) = Some n"
    using assms(4,5) by (simp add: dynamic_pointer_cast_def)
  have idx: "\<not> length nodes \<le> i" using assms(3) by simp
  show ?thesis
    unfolding Assign_def Accumulate_def Let_def
    by (simp only: idx beta_reset not_True_eq_False cast if_True if_False option.case AssignElementToElement_def ka kc
        prod.case sum.case assms(7) len)
qed

lemma Add_success:
  assumes "acc_inv N acc" "i < N" "i < length nodes" "nodes ! i = Some n"
    and "nodeElemType n = ElemType acc" "elemAt (m_value n) 0 0 = Inr v"
    and "GetNumSamples (nodes ! i) l = Inr k"
  shows "Add acc nodes i l =
     Inr (acc\<lparr>m_aggregateCriterionValues :=
                (m_aggregateCriterionValues acc)\<lparr>elems :=
                   (elems (m_aggregateCriterionValues acc))
                     [i := fadd (ElemType acc) (elems (m_aggregateCriterionValues acc) ! i) v]\<rparr>,
              m_aggregateSampleCounts :=
                (m_aggregateSampleCounts acc)[i := m_aggregateSampleCounts acc ! i + k]\<rparr>)"
proof -
  from assms(6) obtain ka where ka: "locate (m_value n) 0 0 = Some ka" "elems (m_value n) ! ka = v"
    by (auto simp: elemAt_def split: option.splits)
  have kc: "locate (m_aggregateCriterionValues acc) 0 i = Some i"
    using assms(1,2) by (simp add: locate_totals)
  have len: "\<not> length (m_aggregateSampleCounts acc) \<le> i"
    using assms(1,2) by (simp add: acc_inv_def)
  have cast: "dynamic_pointer_cast (ElemType acc) (nodes ! i) = Some n"
    using assms(4,5) by (simp add: dynamic_pointer_cast_def)
  have idx: "\<not> length nodes \<le> i" using assms(3) by simp
  show ?thesis
    unfolding Add_def Accumulate_def Let_def
    by (simp only: idx beta_add not_False_eq_True cast if_True if_False option.case AddElementToElement_def ka kc
        prod.case sum.case assms(7) len)
qed

lemma Accumulate_preserves:
  assumes "Accumulate reset acc nodes i l = Inr acc'" "acc_inv N acc"
  shows "acc_inv N acc' \<and> ElemType acc' = ElemType acc"
  using assms
  by (auto simp: Accumulate_def Let_def AssignElementToElement_def
        AddElementToElement_def acc_inv_def
      split: if_splits option.splits sum.splits)

lemma apply_updates_preserves:
  "apply_updates acc us = Inr acc' \<Longrightarrow> acc_inv N acc \<Longrightarrow>
     acc_inv N acc' \<and> ElemType acc' = ElemType acc"
proof (induction us arbitrary: acc)
  case Nil
  then show ?case by simp
next
  case (Cons u us)
  from Cons.prems(1) obtain a where a: "apply_update acc u = Inr a" "apply_updates a us = Inr acc'"
    by (auto simp: and_then_def split: sum.splits)
  from a(1) Cons.prems(2) have "acc_inv N a \<and> ElemType a = ElemType acc"
    by (cases u) (auto simp: Add_def Assign_def dest: Accumulate_preserves)
  with Cons.IH [OF a(2)] show ?case by simp
qed

lemma GetCriterion_slot:
  "acc_inv N acc \<Longrightarrow> i < N \<Longrightarrow>
     GetCriterion acc i =
       Inr (EpochCriterion (fcvt binary64 (elems (m_aggregateCriterionValues acc) ! i))
              (m_aggregateSampleCounts acc ! i))"
  by (simp add: GetCriterion_def elemAt_totals) (simp add: acc_inv_def)

lemma fadd_from_zero:
  "fadd f (fadd f (FZero False) v1) v2 =
     (if v1 = FZero True \<and> v2 = FZero True then FZero False else fadd f v1 v2)"
  by (cases v1; cases v2) auto

lemma GetNumSamples_Some:
  "GetNumSamples (Some n) l =
     Inr (case GetMBLayout n of Some L \<Rightarrow> GetActualNumSamples L | None \<Rightarrow> l)"
  by (simp add: GetNumSamples_def HasMBLayout_def GetMBLayout_def split: option.splits)

lemma Accumulate_frame:
  assumes "Accumulate reset acc nodes i l = Inr acc'" "j \<noteq> i"
  shows "elemAt (m_aggregateCriterionValues acc') 0 j = elemAt (m_aggregateCriterionValues acc) 0 j"
    and "m_aggregateSampleCounts acc' ! j = m_aggregateSampleCounts acc ! j"
    and "length (m_aggregateSampleCounts acc') = length (m_aggregateSampleCounts acc)"
    and "numRows (m_aggregateCriterionValues acc') = numRows (m_aggregateCriterionValues acc)"
    and "numCols (m_aggregateCriterionValues acc') = numCols (m_aggregateCriterionValues acc)"
    and "ElemType acc' = ElemType acc"
  using assms
  by (auto simp: Accumulate_def Let_def AssignElementToElement_def AddElementToElement_def
        elemAt_def locate_def
      split: if_splits option.splits sum.splits)

lemma GetCriterion_cong:
  assumes "elemAt (m_aggregateCriterionValues acc') 0 j = elemAt (m_aggregateCriterionValues acc) 0 j"
    and "m_aggregateSampleCounts acc' ! j = m_aggregateSampleCounts acc ! j"
    and "length (m_aggregateSampleCounts acc') = length (m_aggregateSampleCounts acc)"
  shows "GetCriterion acc' j = GetCriterion acc j"
  unfolding GetCriterion_def by (simp only: assms)

text \<open>
  Claim C2. On a freshly constructed accumulator with \<open>N\<close> slots, \<^verbatim>\<open>Add\<close> into slot \<open>i\<close>
  of a node with value \<open>vA\<close> and sample count \<open>cA\<close>, then \<^verbatim>\<open>Add\<close> into the same slot of
  a node with value \<open>vB\<close> and sample count \<open>cB\<close>, both succeed, and \<^verbatim>\<open>GetCriterion(i)\<close>
  then returns the count \<open>cA + cB\<close> and the value \<open>vA + vB\<close>, computed in the element type
  and converted to \<^verbatim>\<open>double\<close>. The value is that very datum, but for the sign of a zero in
  one case: the total starts as \<open>+0.0\<close>, so two addends \<open>-0.0\<close> leave \<open>+0.0\<close> where
  \<open>vA + vB\<close> is \<open>-0.0\<close>; the two compare equal under \<^verbatim>\<open>==\<close>. For the element type
  \<^verbatim>\<open>double\<close> the conversion changes nothing.
\<close>

theorem Add_twice_accumulates:
  assumes "i < N"
    and "i < length nodesA" "nodesA ! i = Some nA" "nodeElemType nA = f"
    and "elemAt (m_value nA) 0 0 = Inr vA" "GetNumSamples (nodesA ! i) lA = Inr cA"
    and "i < length nodesB" "nodesB ! i = Some nB" "nodeElemType nB = f"
    and "elemAt (m_value nB) 0 0 = Inr vB" "GetNumSamples (nodesB ! i) lB = Inr cB"
  shows "and_then (and_then (Add (CriterionAccumulator f N) nodesA i lA)
                     (\<lambda>acc. Add acc nodesB i lB))
           (\<lambda>acc. GetCriterion acc i) =
         Inr (EpochCriterion
                (if vA = FZero True \<and> vB = FZero True then FZero False
                 else fcvt binary64 (fadd f vA vB))
                (cA + cB)) \<and>
         feq (FZero False) (fcvt binary64 (fadd f (FZero True) (FZero True))) \<and>
         (f = binary64 \<and> fp_valid f vA \<and> fp_valid f vB \<longrightarrow>
            fcvt binary64 (fadd f vA vB) = fadd f vA vB)"
proof -
  let ?a0 = "CriterionAccumulator f N"
  have inv0: "acc_inv N ?a0" by (rule acc_inv_new)
  have f0: "nodeElemType nA = ElemType ?a0" using assms(4) by (simp add: CriterionAccumulator_def)
  obtain a1 where a1: "Add ?a0 nodesA i lA = Inr a1"
    and e1: "elems (m_aggregateCriterionValues a1) ! i = fadd f (FZero False) vA"
    and k1: "m_aggregateSampleCounts a1 ! i = cA"
    using Add_success [OF inv0 assms(1,2,3) f0 assms(5,6)] assms(1)
    by (simp add: CriterionAccumulator_def SetValue_def Matrix_def)
  have inv1: "acc_inv N a1" and t1: "ElemType a1 = f"
    using Accumulate_preserves [OF a1 [unfolded Add_def] inv0]
    by (simp_all add: CriterionAccumulator_def)
  have f1: "nodeElemType nB = ElemType a1" using assms(9) t1 by simp
  obtain a2 where a2: "Add a1 nodesB i lB = Inr a2"
    and e2: "elems (m_aggregateCriterionValues a2) ! i = fadd f (fadd f (FZero False) vA) vB"
    and k2: "m_aggregateSampleCounts a2 ! i = cA + cB"
    using Add_success [OF inv1 assms(1,7,8) f1 assms(10,11)] assms(1) inv1 e1 k1 t1
    by (simp add: acc_inv_def)
  have inv2: "acc_inv N a2"
    using Accumulate_preserves [OF a2 [unfolded Add_def] inv1] by simp
  have snapshot: "and_then (and_then (Add ?a0 nodesA i lA) (\<lambda>acc. Add acc nodesB i lB))
           (\<lambda>acc. GetCriterion acc i) =
         Inr (EpochCriterion
                (if vA = FZero True \<and> vB = FZero True then FZero False
                 else fcvt binary64 (fadd f vA vB))
                (cA + cB))"
    by (simp add: a1 a2 and_then_def GetCriterion_slot [OF inv2 assms(1)] e2 k2 fadd_from_zero
        del: fadd.simps)
  have exact: "f = binary64 \<and> fp_valid f vA \<and> fp_valid f vB \<longrightarrow>
            fcvt binary64 (fadd f vA vB) = fadd f vA vB"
  proof (intro impI)
    assume h: "f = binary64 \<and> fp_valid f vA \<and> fp_valid f vB"
    then have v: "fp_valid binary64 vA" "fp_valid binary64 vB" by blast+
    have "fp_valid binary64 (fadd binary64 vA vB)"
      using v by (intro fadd_valid) (simp_all add: binary64_def)
    then show "fcvt binary64 (fadd f vA vB) = fadd f vA vB"
      using h by (simp add: fcvt_id del: fadd.simps)
  qed
  have zeros: "feq (FZero False) (fcvt binary64 (fadd f (FZero True) (FZero True)))"
    by simp
  from snapshot zeros exact show ?thesis by (intro conjI)
qed

text \<open>
  The instance of the specification: 3.0 with 10 samples (from the node's layout), then 4.0
  with 5 samples (the caller's count, the node having no layout), into slot 0 of two: the
  snapshot is \<open>(7.0, 15)\<close> and its average is \<open>7.0 / 15\<close>.
\<close>

theorem Add_twice_accumulates_witness:
  "and_then (and_then (Add (CriterionAccumulator binary64 2)
                         [criterionNode binary64 (fp_of_nat binary64 3) (Some \<lparr>m_actualNumSamples = 10\<rparr>), None] 0 0)
                      (\<lambda>acc. Add acc [criterionNode binary64 (fp_of_nat binary64 4) None, None] 0 5))
            (\<lambda>acc. GetCriterion acc 0) = Inr (EpochCriterion (fp_of_nat binary64 7) 15) \<and>
   Average (EpochCriterion (fp_of_nat binary64 7) 15) =
     fdiv binary64 (fp_of_nat binary64 7) (fp_of_nat binary64 15) \<and>
   fp_valid binary64 (fp_of_nat binary64 3) \<and> fp_valid binary64 (fp_of_nat binary64 4) \<and>
   fadd binary64 (fp_of_nat binary64 3) (fp_of_nat binary64 4) = fp_of_nat binary64 7"
  using Add_twice_accumulates [where i = 0 and N = 2 and f = binary64
      and nodesA = "[criterionNode binary64 (fp_of_nat binary64 3) (Some \<lparr>m_actualNumSamples = 10\<rparr>), None]"
      and nA = "\<lparr>nodeElemType = binary64, m_value = \<lparr>numRows = 1, numCols = 1, elems = [fp_of_nat binary64 3]\<rparr>,
                m_pMBLayout = Some \<lparr>m_actualNumSamples = 10\<rparr>\<rparr>"
      and vA = "fp_of_nat binary64 3" and lA = 0 and cA = 10
      and nodesB = "[criterionNode binary64 (fp_of_nat binary64 4) None, None]"
      and nB = "\<lparr>nodeElemType = binary64, m_value = \<lparr>numRows = 1, numCols = 1, elems = [fp_of_nat binary64 4]\<rparr>,
                m_pMBLayout = None\<rparr>"
      and vB = "fp_of_nat binary64 4" and lB = 5 and cB = 5]
  by (simp add: criterionNode_def elemAt_def locate_def GetNumSamples_def HasMBLayout_def
      GetMBLayout_def GetActualNumSamples_def Average_def EpochCriterion_def fp_valid_def fp_eval)

text \<open>
  Claim C3. On an accumulator reached from construction by any sequence of successful
  \<^verbatim>\<open>Add\<close> and \<^verbatim>\<open>Assign\<close> calls, \<^verbatim>\<open>Assign\<close> into a slot \<open>i < N\<close> of a node with value \<open>v\<close>
  and sample count \<open>c\<close> succeeds, and \<^verbatim>\<open>GetCriterion(i)\<close> then returns exactly \<open>v\<close>
  (converted to \<^verbatim>\<open>double\<close>) and \<open>c\<close>: nothing of what the slot held before remains.
\<close>

theorem Assign_overwrites:
  assumes "apply_updates (CriterionAccumulator f N) us = Inr acc" "i < N"
    and "i < length nodes" "nodes ! i = Some n" "nodeElemType n = f"
    and "elemAt (m_value n) 0 0 = Inr v" "GetNumSamples (nodes ! i) l = Inr c"
  shows "and_then (Assign acc nodes i l) (\<lambda>acc'. GetCriterion acc' i) =
         Inr (EpochCriterion (fcvt binary64 v) c) \<and>
         ((f = binary64 \<or> f = binary32) \<and> fp_valid f v \<longrightarrow>
            fcvt binary64 v = v \<or> feq (fcvt binary64 v) v)"
proof -
  have inv: "acc_inv N acc" and t: "ElemType acc = f"
    using apply_updates_preserves [OF assms(1) acc_inv_new]
    by (simp_all add: CriterionAccumulator_def)
  have ft: "nodeElemType n = ElemType acc" using assms(5) t by simp
  obtain a where a: "Assign acc nodes i l = Inr a"
    and e: "elems (m_aggregateCriterionValues a) ! i = v"
    and k: "m_aggregateSampleCounts a ! i = c"
    using Assign_success [OF inv assms(2,3,4) ft assms(6,7)] assms(2) inv
    by (simp add: acc_inv_def)
  have inv': "acc_inv N a"
    using Accumulate_preserves [OF a [unfolded Assign_def] inv] by simp
  have "and_then (Assign acc nodes i l) (\<lambda>acc'. GetCriterion acc' i) =
         Inr (EpochCriterion (fcvt binary64 v) c)"
    by (simp add: a and_then_def GetCriterion_slot [OF inv' assms(2)] e k)
  then show ?thesis using to_double_exact [of f v] by blast
qed

text \<open>
  The instance of the specification: after 3.0 with 10 samples and 4.0 with 5 samples were
  added to slot 0, \<^verbatim>\<open>Assign\<close> of 1.0 with 1 sample leaves \<open>(1.0, 1)\<close>.
\<close>

theorem Assign_overwrites_witness:
  "and_then (apply_updates (CriterionAccumulator binary64 2)
               [AddTo [criterionNode binary64 (fp_of_nat binary64 3) (Some \<lparr>m_actualNumSamples = 10\<rparr>)] 0 0,
                AddTo [criterionNode binary64 (fp_of_nat binary64 4) None] 0 5])
      (\<lambda>acc. and_then (Assign acc [criterionNode binary64 (fp_of_nat binary64 1) None] 0 1)
         (\<lambda>acc'. GetCriterion acc' 0)) = Inr (EpochCriterion (fp_of_nat binary64 1) 1) \<and>
   fp_valid binary64 (fp_of_nat binary64 1) \<and> fcvt binary64 (fp_of_nat binary64 1) = fp_of_nat binary64 1"
  using Assign_overwrites [where f = binary64 and N = 2 and i = 0 and l = 1 and c = 1
      and us = "[AddTo [criterionNode binary64 (fp_of_nat binary64 3) (Some \<lparr>m_actualNumSamples = 10\<rparr>)] 0 0,
                AddTo [criterionNode binary64 (fp_of_nat binary64 4) None] 0 5]"
      and acc = "\<lparr>ElemType = binary64,
                  m_aggregateCriterionValues = \<lparr>numRows = 1, numCols = 2,
                     elems = [fp_of_nat binary64 7, FZero False]\<rparr>,
                  m_aggregateSampleCounts = [15, 0]\<rparr>"
      and nodes = "[criterionNode binary64 (fp_of_nat binary64 1) None]"
      and n = "\<lparr>nodeElemType = binary64, m_value = \<lparr>numRows = 1, numCols = 1, elems = [fp_of_nat binary64 1]\<rparr>,
                m_pMBLayout = None\<rparr>"
      and v = "fp_of_nat binary64 1"]
  by (simp add: acc_eval fp_valid_def fp_eval)

text \<open>
  Claim C8. The sample count of an update of slot \<open>i\<close> is what \<^verbatim>\<open>GetNumSamples\<close> returns
  for the node \<open>i\<close>: the actual number of samples of the node's layout when it has one,
  the caller's \<open>legacyNumSamples\<close> otherwise. \<^verbatim>\<open>Add\<close> adds that count to the count of
  the slot and \<^verbatim>\<open>Assign\<close> stores it there.
\<close>

theorem sample_count_determination:
  assumes "acc_inv N acc" "i < N" "i < length nodes" "nodes ! i = Some n"
    and "nodeElemType n = ElemType acc" "elemAt (m_value n) 0 0 = Inr v"
  shows "GetNumSamples (nodes ! i) l =
           Inr (case GetMBLayout n of Some L \<Rightarrow> GetActualNumSamples L | None \<Rightarrow> l) \<and>
         and_then (Add acc nodes i l) (\<lambda>acc'. GetCriterion acc' i) =
           Inr (EpochCriterion
                  (fcvt binary64 (fadd (ElemType acc) (elems (m_aggregateCriterionValues acc) ! i) v))
                  (m_aggregateSampleCounts acc ! i +
                     (case GetMBLayout n of Some L \<Rightarrow> GetActualNumSamples L | None \<Rightarrow> l))) \<and>
         and_then (Assign acc nodes i l) (\<lambda>acc'. GetCriterion acc' i) =
           Inr (EpochCriterion (fcvt binary64 v)
                  (case GetMBLayout n of Some L \<Rightarrow> GetActualNumSamples L | None \<Rightarrow> l))"
proof -
  let ?k = "case GetMBLayout n of Some L \<Rightarrow> GetActualNumSamples L | None \<Rightarrow> l"
  have g: "GetNumSamples (nodes ! i) l = Inr ?k"
    using assms(4) by (simp add: GetNumSamples_Some)
  have li: "i < length (elems (m_aggregateCriterionValues acc))"
       "i < length (m_aggregateSampleCounts acc)"
    using assms(1,2) by (simp_all add: acc_inv_def)
  note add = Add_success [OF assms(1,2,3,4,5,6) g]
  note asg = Assign_success [OF assms(1,2,3,4,5,6) g]
  have inv_add: "acc_inv N (projr (Add acc nodes i l))"
    using Accumulate_preserves [OF add [unfolded Add_def] assms(1)] add by simp
  have inv_asg: "acc_inv N (projr (Assign acc nodes i l))"
    using Accumulate_preserves [OF asg [unfolded Assign_def] assms(1)] asg by simp
  have A: "and_then (Add acc nodes i l) (\<lambda>acc'. GetCriterion acc' i) =
           Inr (EpochCriterion
                  (fcvt binary64 (fadd (ElemType acc) (elems (m_aggregateCriterionValues acc) ! i) v))
                  (m_aggregateSampleCounts acc ! i + ?k))"
    using inv_add li unfolding add and_then_def
    by (simp add: GetCriterion_slot [OF _ assms(2)])
  have B: "and_then (Assign acc nodes i l) (\<lambda>acc'. GetCriterion acc' i) =
           Inr (EpochCriterion (fcvt binary64 v) ?k)"
    using inv_asg li unfolding asg and_then_def
    by (simp add: GetCriterion_slot [OF _ assms(2)])
  from g A B show ?thesis by (intro conjI)
qed

text \<open>
  A node with a layout of 10 samples, the caller passing 7: the count is 10; without a
  layout it is 7.
\<close>

theorem sample_count_determination_witness:
  "GetNumSamples (criterionNode binary32 (fp_of_nat binary32 3) (Some \<lparr>m_actualNumSamples = 10\<rparr>)) 7 = Inr 10 \<and>
   GetNumSamples (criterionNode binary32 (fp_of_nat binary32 3) None) 7 = Inr 7 \<and>
   and_then (Add (CriterionAccumulator binary32 1)
                [criterionNode binary32 (fp_of_nat binary32 3) (Some \<lparr>m_actualNumSamples = 10\<rparr>)] 0 7)
            (\<lambda>acc'. GetCriterion acc' 0) = Inr (EpochCriterion (fp_of_nat binary64 3) 10) \<and>
   and_then (Assign (CriterionAccumulator binary32 1)
                [criterionNode binary32 (fp_of_nat binary32 3) (Some \<lparr>m_actualNumSamples = 10\<rparr>)] 0 7)
            (\<lambda>acc'. GetCriterion acc' 0) = Inr (EpochCriterion (fp_of_nat binary64 3) 10)"
  using sample_count_determination [where N = 1 and i = 0 and l = 7
      and acc = "CriterionAccumulator binary32 1"
      and nodes = "[criterionNode binary32 (fp_of_nat binary32 3) (Some \<lparr>m_actualNumSamples = 10\<rparr>)]"
      and n = "\<lparr>nodeElemType = binary32, m_value = \<lparr>numRows = 1, numCols = 1, elems = [fp_of_nat binary32 3]\<rparr>,
                m_pMBLayout = Some \<lparr>m_actualNumSamples = 10\<rparr>\<rparr>"
      and v = "fp_of_nat binary32 3"]
  by (simp add: acc_eval acc_inv_def fp_eval)

text \<open>
  Claim C9. Successful \<^verbatim>\<open>Add\<close> and \<^verbatim>\<open>Assign\<close> calls, in any number and order, on slots
  other than \<open>j\<close> leave the total and the count of slot \<open>j\<close> as they were, and the sizes
  too, so that \<^verbatim>\<open>GetCriterion(j)\<close> returns the same snapshot before and after.
  \<^verbatim>\<open>GetCriterion\<close> itself is a \<^verbatim>\<open>const\<close> member function: in the model it is a function of
  the accumulator that returns a snapshot and no accumulator, so that calls of it, however
  many and wherever they stand between updates, do not enter the state on which the updates
  run.
\<close>

theorem other_slots_unchanged:
  assumes "apply_updates acc us = Inr acc'" "\<forall>u\<in>set us. update_slot u \<noteq> j"
  shows "GetCriterion acc' j = GetCriterion acc j \<and>
         elemAt (m_aggregateCriterionValues acc') 0 j = elemAt (m_aggregateCriterionValues acc) 0 j \<and>
         m_aggregateSampleCounts acc' ! j = m_aggregateSampleCounts acc ! j \<and>
         length (m_aggregateSampleCounts acc') = length (m_aggregateSampleCounts acc) \<and>
         numRows (m_aggregateCriterionValues acc') = numRows (m_aggregateCriterionValues acc) \<and>
         numCols (m_aggregateCriterionValues acc') = numCols (m_aggregateCriterionValues acc) \<and>
         ElemType acc' = ElemType acc"
  using assms
proof (induction us arbitrary: acc)
  case Nil
  then show ?case by simp
next
  case (Cons u us)
  from Cons.prems(1) obtain a where a: "apply_update acc u = Inr a" "apply_updates a us = Inr acc'"
    by (auto simp: and_then_def split: sum.splits)
  from Cons.prems(2) have j: "j \<noteq> update_slot u" and rest: "\<forall>u\<in>set us. update_slot u \<noteq> j"
    by auto
  obtain reset nodes l where step: "Accumulate reset acc nodes (update_slot u) l = Inr a"
    using a(1) by (cases u) (auto simp: Add_def Assign_def)
  note fr = Accumulate_frame [OF step j]
  from Cons.IH [OF a(2) rest] fr show ?case
    by (simp add: GetCriterion_cong [OF fr(1,2,3)])
qed

text \<open>
  Slot 1 of two holds \<open>(4.0, 5)\<close>; an \<^verbatim>\<open>Add\<close> and an \<^verbatim>\<open>Assign\<close> on slot 0 leave it so.
\<close>

theorem other_slots_unchanged_witness:
  "and_then
     (apply_updates
        \<lparr>ElemType = binary64,
         m_aggregateCriterionValues = \<lparr>numRows = 1, numCols = 2, elems = [FZero False, fp_of_nat binary64 4]\<rparr>,
         m_aggregateSampleCounts = [0, 5]\<rparr>
        [AddTo [criterionNode binary64 (fp_of_nat binary64 3) None, None] 0 10,
         AssignTo [criterionNode binary64 (fp_of_nat binary64 1) None, None] 0 1])
     (\<lambda>acc'. GetCriterion acc' 1) = Inr (EpochCriterion (fp_of_nat binary64 4) 5) \<and>
   GetCriterion
     \<lparr>ElemType = binary64,
      m_aggregateCriterionValues = \<lparr>numRows = 1, numCols = 2, elems = [FZero False, fp_of_nat binary64 4]\<rparr>,
      m_aggregateSampleCounts = [0, 5]\<rparr> 1 = Inr (EpochCriterion (fp_of_nat binary64 4) 5)"
  using other_slots_unchanged [where j = 1
      and acc = "\<lparr>ElemType = binary64,
         m_aggregateCriterionValues = \<lparr>numRows = 1, numCols = 2, elems = [FZero False, fp_of_nat binary64 4]\<rparr>,
         m_aggregateSampleCounts = [0, 5]\<rparr>"
      and us = "[AddTo [criterionNode binary64 (fp_of_nat binary64 3) None, None] 0 10,
         AssignTo [criterionNode binary64 (fp_of_nat binary64 1) None, None] 0 1]"
      and acc' = "\<lparr>ElemType = binary64,
         m_aggregateCriterionValues = \<lparr>numRows = 1, numCols = 2, elems = [fp_of_nat binary64 1, fp_of_nat binary64 4]\<rparr>,
         m_aggregateSampleCounts = [1, 5]\<rparr>"]
  by (simp add: acc_eval fp_eval)

section \<open>EpochCriterion: merging and the delta of two snapshots\<close>

text \<open>
  Claim C6, as stated, fails in its last word: the merge is not associative in the value.
  With the values \<open>2 ^ 53\<close>, 1 and 1, merging from the left gives \<open>2 ^ 53\<close> (each sum
  \<open>2 ^ 53 + 1\<close> is a tie and rounds to the even neighbour), merging from the right gives
  \<open>2 ^ 53 + 2\<close>; the two differ, as data and under \<^verbatim>\<open>==\<close>. With the values 0.1, 0.2 and
  0.3 (the doubles nearest to 1/10, 2/10 and 3/10), merging from the left gives
  0.6000000000000001 and merging from the right gives 0.6, the double nearest to 6/10.
\<close>

theorem merge_not_associative:
  "first (op_plus_assign
            (op_plus_assign (EpochCriterion (fp_of_nat binary64 9007199254740992) 1)
                            (EpochCriterion (fp_of_nat binary64 1) 1))
            (EpochCriterion (fp_of_nat binary64 1) 1))
     = fp_of_nat binary64 9007199254740992 \<and>
   first (op_plus_assign
            (EpochCriterion (fp_of_nat binary64 9007199254740992) 1)
            (op_plus_assign (EpochCriterion (fp_of_nat binary64 1) 1)
                            (EpochCriterion (fp_of_nat binary64 1) 1)))
     = fp_of_nat binary64 9007199254740994 \<and>
   op_plus_assign
     (op_plus_assign (EpochCriterion (fp_of_nat binary64 9007199254740992) 1)
                     (EpochCriterion (fp_of_nat binary64 1) 1))
     (EpochCriterion (fp_of_nat binary64 1) 1) \<noteq>
   op_plus_assign
     (EpochCriterion (fp_of_nat binary64 9007199254740992) 1)
     (op_plus_assign (EpochCriterion (fp_of_nat binary64 1) 1)
                     (EpochCriterion (fp_of_nat binary64 1) 1)) \<and>
   \<not> feq (fp_of_nat binary64 9007199254740992) (fp_of_nat binary64 9007199254740994) \<and>
   first (op_plus_assign
            (op_plus_assign
               (EpochCriterion (fdiv binary64 (fp_of_nat binary64 1) (fp_of_nat binary64 10)) 1)
               (EpochCriterion (fdiv binary64 (fp_of_nat binary64 2) (fp_of_nat binary64 10)) 1))
            (EpochCriterion (fdiv binary64 (fp_of_nat binary64 3) (fp_of_nat binary64 10)) 1))
     = FNum False 5404319552844596 (- 53) \<and>
   first (op_plus_assign
            (EpochCriterion (fdiv binary64 (fp_of_nat binary64 1) (fp_of_nat binary64 10)) 1)
            (op_plus_assign
               (EpochCriterion (fdiv binary64 (fp_of_nat binary64 2) (fp_of_nat binary64 10)) 1)
               (EpochCriterion (fdiv binary64 (fp_of_nat binary64 3) (fp_of_nat binary64 10)) 1)))
     = FNum False 5404319552844595 (- 53) \<and>
   fdiv binary64 (fp_of_nat binary64 6) (fp_of_nat binary64 10) = FNum False 5404319552844595 (- 53)"
  by (simp add: op_plus_assign_def EpochCriterion_def fp_eval)

text \<open>
  Claim C6, amended. \<open>a += b\<close> leaves in \<open>a\<close> the pair of the sum of the values, in
  \<^verbatim>\<open>double\<close> arithmetic, and the sum of the counts, modulo \<open>2 ^ 64\<close>; the merge is
  commutative in both fields, and it is associative in the sample count.
\<close>

theorem merge_law:
  "op_plus_assign a b = EpochCriterion (fadd binary64 (first a) (first b)) (second a + second b) \<and>
   op_plus_assign a b = op_plus_assign b a \<and>
   second (op_plus_assign (op_plus_assign a b) c) = second (op_plus_assign a (op_plus_assign b c))"
  by (simp add: op_plus_assign_def EpochCriterion_def fadd_commute [of binary64 "first a"]
      add.commute [of "second a"] add.assoc del: fadd.simps)

lemma second_foldl_op_plus_assign:
  "second (foldl op_plus_assign a us) = second a + sum_list (map second us)"
  by (induction us arbitrary: a) (simp_all add: op_plus_assign_def add.assoc)

text \<open>
  Claim C7, as stated, fails: the difference of two snapshots need not be the sum of the
  updates between them. A snapshot holds \<open>(2 ^ 53, 10)\<close>; one update \<open>(1.0, 1)\<close> is
  merged; the later snapshot minus the earlier one has the value \<open>0.0\<close> and the average
  \<open>0.0\<close>, while the average of the update is \<open>1.0\<close>. The same happens with snapshots
  taken by \<^verbatim>\<open>GetCriterion\<close> before and after an \<^verbatim>\<open>Add\<close>. And with ordinary magnitudes: a
  snapshot holds \<open>(0.1, 1)\<close>, the update \<open>(0.2, 1)\<close> is merged, and the difference is
  \<open>(0.20000000000000004, 1)\<close>, one unit in the last place above 0.2.
\<close>

theorem delta_law_counterexample:
  "Average (op_minus (op_plus_assign (EpochCriterion (fp_of_nat binary64 9007199254740992) 10)
                                     (EpochCriterion (fp_of_nat binary64 1) 1))
                     (EpochCriterion (fp_of_nat binary64 9007199254740992) 10)) = FZero False \<and>
   Average (EpochCriterion (fp_of_nat binary64 1) 1) = fp_of_nat binary64 1 \<and>
   \<not> feq (FZero False) (fp_of_nat binary64 1) \<and>
   and_then (Add (CriterionAccumulator binary64 1)
               [criterionNode binary64 (fp_of_nat binary64 9007199254740992) None] 0 10)
     (\<lambda>accA. and_then (GetCriterion accA 0)
        (\<lambda>a. and_then (Add accA [criterionNode binary64 (fp_of_nat binary64 1) None] 0 1)
           (\<lambda>accB. and_then (GetCriterion accB 0)
              (\<lambda>b. Inr (Average (op_minus b a)))))) = Inr (FZero False) \<and>
   op_minus
     (op_plus_assign
        (EpochCriterion (fdiv binary64 (fp_of_nat binary64 1) (fp_of_nat binary64 10)) 1)
        (EpochCriterion (fdiv binary64 (fp_of_nat binary64 2) (fp_of_nat binary64 10)) 1))
     (EpochCriterion (fdiv binary64 (fp_of_nat binary64 1) (fp_of_nat binary64 10)) 1)
     = EpochCriterion (FNum False 7205759403792795 (- 55)) 1 \<and>
   fdiv binary64 (fp_of_nat binary64 2) (fp_of_nat binary64 10) = FNum False 7205759403792794 (- 55)"
  by (simp add: op_minus_def op_plus_assign_def Average_def fsub_def acc_eval fp_eval)

text \<open>
  Claim C7, amended. \<^verbatim>\<open>operator-\<close> subtracts both fields, the values in \<^verbatim>\<open>double\<close>
  arithmetic and the counts modulo \<open>2 ^ 64\<close>. For a snapshot \<open>a\<close> and the later snapshot
  obtained from it by merging the updates \<open>us\<close>, the sample count of the difference is
  exactly the sum of the sample counts of \<open>us\<close>.
\<close>

theorem delta_law:
  "op_minus b a = EpochCriterion (fsub binary64 (first b) (first a)) (second b - second a) \<and>
   second (op_minus (foldl op_plus_assign a us) a) = sum_list (map second us)"
  by (simp add: op_minus_def EpochCriterion_def second_foldl_op_plus_assign)

end
